theory Spec2Isabelle
  imports Main "HOL-Library.Multiset"
begin

section \<open>MediSync: the request handlers of app.py over their tables and session\<close>

text \<open>
  The program is a Flask application: each handler reads the request form and the
  session, runs SQL statements on a PostgreSQL connection and returns a response.
  The embedding keeps that shape. A handler is a function from the state (the client's
  session and the tables) to a result and the new state; the result is the response or
  the exception the handler raises.

  What is not part of \<^verbatim>\<open>app.py\<close> is a parameter: the functions the program
  imports (\<^verbatim>\<open>check_password_hash\<close>, Python's \<^verbatim>\<open>int\<close>, the server's input
  conversions for INTEGER and DATE columns, the collation of text) are the fields of an
  environment record, and the values the server generates for a row (the SERIAL
  sequence value, CURRENT_TIMESTAMP) are the fields of a per-request context.

  Scope of the model: the connection is available (a failing
  \<^verbatim>\<open>psycopg2.connect\<close> is not modelled), a SERIAL sequence value never collides with
  a stored key, and strings are text the driver accepts. The constraints that
  \<^verbatim>\<open>init_db\<close> declares (NOT NULL, REFERENCES, the INTEGER range) are modelled.
\<close>

subsection \<open>Tables (init\_db)\<close>

type_synonym timestamp = int
type_synonym date = int

text \<open>A column declared NOT NULL or PRIMARY KEY holds a value; any other column holds
  an option, \<open>None\<close> for NULL.\<close>

record users_row =
  u_id :: int
  u_username :: string
  u_password :: string
  u_full_name :: string
  u_role :: "string option"
  u_created_at :: "timestamp option"

record user_activity_row =
  a_id :: int
  a_username :: string
  a_activity :: string
  a_activity_time :: "timestamp option"

record Category_row =
  c_id :: int
  c_category_name :: string
  c_created_at :: "date option"

record Product_row =
  pr_id :: int
  pr_product_name :: string
  pr_product_type :: string
  pr_category_id :: "int option"
  pr_stock_quantity :: "int option"
  pr_stock_status :: "string option"
  pr_status :: "string option"
  pr_created_at :: "date option"

record Supplier_row =
  s_id :: int
  s_supplier_name :: string
  s_contact_person :: "string option"
  s_contact_number :: "string option"
  s_created_at :: "timestamp option"

record Purchase_row =
  pu_id :: int
  pu_product_id :: "int option"
  pu_supplier_id :: "int option"
  pu_batch_number :: "string option"
  pu_purchase_quantity :: int
  pu_remaining_quantity :: int
  pu_expiration_date :: "date option"
  pu_status :: "string option"
  pu_purchase_date :: "timestamp option"

record Order_row =
  o_order_id :: int
  o_product_id :: "int option"
  o_batch_number :: "string option"
  o_order_quantity :: int
  o_customer :: string
  o_order_date :: "timestamp option"

record notification_row =
  n_id :: int
  n_product_id :: "int option"
  n_batch_id :: "string option"
  n_message :: "string option"
  n_type :: "string option"
  n_is_read :: "bool option"
  n_ignored :: "bool option"
  n_created_at :: "timestamp option"

record database =
  users :: "users_row list"
  user_activity :: "user_activity_row list"
  Category :: "Category_row list"
  Product :: "Product_row list"
  Supplier :: "Supplier_row list"
  Purchase :: "Purchase_row list"
  Order :: "Order_row list"
  notification :: "notification_row list"

text \<open>The CHECK constraint of \<^verbatim>\<open>Product.product_type\<close> and the UNIQUE
  constraint of \<^verbatim>\<open>users.username\<close>, as predicates on the tables.\<close>

definition check_product_type :: "database \<Rightarrow> bool" where
  "check_product_type d =
     list_all (\<lambda>p. pr_product_type p = ''medicine'' \<or> pr_product_type p = ''supply'') (Product d)"

definition unique_username :: "database \<Rightarrow> bool" where
  "unique_username d = distinct (map u_username (users d))"

subsection \<open>Session, request, response\<close>

text \<open>The session is a dictionary whose keys are written by \<^verbatim>\<open>auth\<close> only, all
  five at once, from a \<^verbatim>\<open>users\<close> row: each key is a field holding \<open>None\<close> when
  the key is absent. The \<^verbatim>\<open>role\<close> column may be NULL, so the key may hold
  Python's None.\<close>

record session =
  logged_in :: "bool option"
  user_id :: "int option"
  username :: "string option"
  name :: "string option"
  role :: "string option option"

definition session_clear :: session where
  "session_clear =
     \<lparr>logged_in = None, user_id = None, username = None, name = None, role = None\<rparr>"

definition update_session :: "users_row \<Rightarrow> session \<Rightarrow> session" where
  "update_session user s =
     s\<lparr>logged_in := Some True, user_id := Some (u_id user),
       username := Some (u_username user), name := Some (u_full_name user),
       role := Some (u_role user)\<rparr>"

text \<open>Truthiness of \<^verbatim>\<open>session.get(key)\<close>: absent, False and the empty string are
  falsy.\<close>

fun truthy_bool :: "bool option \<Rightarrow> bool" where
  "truthy_bool None = False"
| "truthy_bool (Some b) = b"

fun truthy_str :: "string option \<Rightarrow> bool" where
  "truthy_str None = False"
| "truthy_str (Some s) = (s \<noteq> [])"

record state =
  session :: session
  db :: database

type_synonym form = "string \<rightharpoonup> string"

datatype endpoint = EP_login | EP_auth | EP_logout | EP_dashboard | EP_purchases | EP_add_purchase

fun url_for :: "endpoint \<Rightarrow> string" where
  "url_for EP_login = ''/''"
| "url_for EP_auth = ''/auth''"
| "url_for EP_logout = ''/logout''"
| "url_for EP_dashboard = ''/dashboard''"
| "url_for EP_purchases = ''/purchases''"
| "url_for EP_add_purchase = ''/add-purchase''"

text \<open>A row of the purchases listing: the nine selected columns. The two joined
  columns are NULL when the LEFT JOIN finds no partner.\<close>

record purchase_view =
  v_id :: int
  v_product_name :: "string option"
  v_batch_number :: "string option"
  v_purchase_quantity :: int
  v_remaining_quantity :: int
  v_expiration_date :: "date option"
  v_status :: "string option"
  v_purchase_date :: "timestamp option"
  v_supplier_name :: "string option"

datatype response =
    Redirect string
  | Render_index "string option"
  | Render_admin int int int
  | Render_purchase "purchase_view list" "(int \<times> string) list" "(int \<times> string) list"
  | Jsonify_success bool

text \<open>The database errors of the INSERT, each with the column it is about:
  \<open>DataError\<close> when the server cannot convert a value to the column's type (text that
  is no number or no date, a number outside the column's range), and
  \<open>ForeignKeyViolation\<close> when a REFERENCES constraint finds no row.\<close>

datatype db_error =
    DataError string
  | ForeignKeyViolation string

datatype error =
    BadRequestKeyError string
  | KeyError string
  | ValueError
  | DatabaseError db_error

type_synonym result = "(error + response) \<times> state"

record env =
  check_password_hash :: "string \<Rightarrow> string \<Rightarrow> bool"
  py_int :: "string \<Rightarrow> int option"
  pg_int4in :: "string \<Rightarrow> int option"
  pg_date_in :: "string \<Rightarrow> date option"
  collate_le :: "string \<Rightarrow> string \<Rightarrow> bool"

record ctx =
  now :: timestamp
  nextval_user_activity :: int
  nextval_purchase :: int

subsection \<open>Auth decorator\<close>

definition login_required :: "(state \<Rightarrow> result) \<Rightarrow> state \<Rightarrow> result" where
  "login_required f st =
     (if \<not> truthy_bool (logged_in (session st)) then (Inr (Redirect (url_for EP_login)), st)
      else f st)"

subsection \<open>Activity log\<close>

definition log_activity :: "ctx \<Rightarrow> string \<Rightarrow> string \<Rightarrow> database \<Rightarrow> database" where
  "log_activity cx uname activity d =
     d\<lparr>user_activity := user_activity d @
        [\<lparr>a_id = nextval_user_activity cx, a_username = uname, a_activity = activity,
          a_activity_time = Some (now cx)\<rparr>]\<rparr>"

subsection \<open>Auth routes\<close>

definition login :: "state \<Rightarrow> result" where
  "login st = (Inr (Render_index None), st\<lparr>session := session_clear\<rparr>)"

definition auth :: "env \<Rightarrow> ctx \<Rightarrow> form \<Rightarrow> state \<Rightarrow> result" where
  "auth ev cx frm st =
     (case frm ''username'' of
        None \<Rightarrow> (Inl (BadRequestKeyError ''username''), st)
      | Some uname \<Rightarrow>
     (case frm ''password'' of
        None \<Rightarrow> (Inl (BadRequestKeyError ''password''), st)
      | Some password \<Rightarrow>
     (case find (\<lambda>u. u_username u = uname) (users (db st)) of
        Some user \<Rightarrow>
          if check_password_hash ev (u_password user) password
          then (Inr (Redirect (url_for EP_dashboard)),
                \<lparr>session = update_session user (session st),
                 db = log_activity cx uname ''Logged in'' (db st)\<rparr>)
          else (Inr (Render_index (Some ''Invalid login'')), st)
      | None \<Rightarrow> (Inr (Render_index (Some ''Invalid login'')), st))))"

definition logout :: "ctx \<Rightarrow> state \<Rightarrow> result" where
  "logout cx st =
     (let d = (case username (session st) of
                 Some u \<Rightarrow>
                   if truthy_str (Some u) then log_activity cx u ''Logged out'' (db st)
                   else db st
               | None \<Rightarrow> db st)
      in (Inr (Redirect (url_for EP_login)), \<lparr>session = session_clear, db = d\<rparr>))"

subsection \<open>Dashboard\<close>

text \<open>SQL's SUM skips NULL and is NULL when it has added nothing; Python's
  \<^verbatim>\<open>x or 0\<close> is 0 when \<open>x\<close> is None or 0. The sums are unbounded integers here
  (the server adds INTEGER values in a BIGINT).\<close>

fun sql_sum :: "int option list \<Rightarrow> int option" where
  "sql_sum [] = None"
| "sql_sum (None # xs) = sql_sum xs"
| "sql_sum (Some v # xs) = (case sql_sum xs of None \<Rightarrow> Some v | Some s \<Rightarrow> Some (v + s))"

fun or_0 :: "int option \<Rightarrow> int" where
  "or_0 None = 0"
| "or_0 (Some v) = (if v = 0 then 0 else v)"

definition where_active :: "Product_row list \<Rightarrow> Product_row list" where
  "where_active ps = filter (\<lambda>p. pr_status p = Some ''active'') ps"

definition select_total_stocks :: "database \<Rightarrow> int option" where
  "select_total_stocks d = sql_sum (map pr_stock_quantity (where_active (Product d)))"

definition select_type_counts :: "database \<Rightarrow> int option \<times> int option" where
  "select_type_counts d =
     (sql_sum (map (\<lambda>p. Some (if pr_product_type p = ''medicine'' then 1 else 0))
                   (where_active (Product d))),
      sql_sum (map (\<lambda>p. Some (if pr_product_type p = ''supply'' then 1 else 0))
                   (where_active (Product d))))"

definition dashboard :: "state \<Rightarrow> result" where
  "dashboard st =
     (let total_stocks = or_0 (select_total_stocks (db st));
          (meds, supplies) = select_type_counts (db st)
      in (Inr (Render_admin total_stocks (or_0 meds) (or_0 supplies)), st))"

definition dashboard_route :: "state \<Rightarrow> result" where
  "dashboard_route = login_required dashboard"

subsection \<open>Purchases\<close>

text \<open>LEFT JOIN: every left row with each right row the condition accepts, or with
  NULLs when it accepts none. A NULL foreign key equals no key.\<close>

definition left_join :: "('a \<Rightarrow> 'b \<Rightarrow> bool) \<Rightarrow> 'a list \<Rightarrow> 'b list \<Rightarrow> ('a \<times> 'b option) list" where
  "left_join on xs ys =
     concat (map (\<lambda>x. case filter (on x) ys of
                         [] \<Rightarrow> [(x, None)]
                       | m # ms \<Rightarrow> map (\<lambda>y. (x, Some y)) (m # ms)) xs)"

text \<open>ORDER BY, as an insertion sort that keeps rows of equal rank in the order they
  were read (SQL leaves the order of such rows open). \<open>le x y\<close> says that \<open>x\<close> may
  stand before \<open>y\<close>.\<close>

fun insort_by :: "('a \<Rightarrow> 'a \<Rightarrow> bool) \<Rightarrow> 'a \<Rightarrow> 'a list \<Rightarrow> 'a list" where
  "insort_by le x [] = [x]"
| "insort_by le x (y # ys) = (if le x y then x # y # ys else y # insort_by le x ys)"

definition order_by :: "('a \<Rightarrow> 'a \<Rightarrow> bool) \<Rightarrow> 'a list \<Rightarrow> 'a list" where
  "order_by le xs = foldr (insort_by le) xs []"

text \<open>DESC on a nullable column: NULL ranks above every value (NULLS FIRST is the
  default of DESC), then later timestamps before earlier ones.\<close>

fun desc_nulls_first :: "timestamp option \<Rightarrow> timestamp option \<Rightarrow> bool" where
  "desc_nulls_first None _ = True"
| "desc_nulls_first (Some a) None = False"
| "desc_nulls_first (Some a) (Some b) = (b \<le> a)"

definition select_purchase :: "(Purchase_row \<times> Product_row option) \<times> Supplier_row option \<Rightarrow> purchase_view" where
  "select_purchase r =
     (case r of ((pu, pr), s) \<Rightarrow>
        \<lparr>v_id = pu_id pu,
         v_product_name = map_option pr_product_name pr,
         v_batch_number = pu_batch_number pu,
         v_purchase_quantity = pu_purchase_quantity pu,
         v_remaining_quantity = pu_remaining_quantity pu,
         v_expiration_date = pu_expiration_date pu,
         v_status = pu_status pu,
         v_purchase_date = pu_purchase_date pu,
         v_supplier_name = map_option s_supplier_name s\<rparr>)"

definition from_purchase_joined :: "database \<Rightarrow> ((Purchase_row \<times> Product_row option) \<times> Supplier_row option) list" where
  "from_purchase_joined d =
     left_join (\<lambda>(pu, pr) s. pu_supplier_id pu = Some (s_id s))
       (left_join (\<lambda>pu pr. pu_product_id pu = Some (pr_id pr)) (Purchase d) (Product d))
       (Supplier d)"

definition select_purchases :: "database \<Rightarrow> purchase_view list" where
  "select_purchases d =
     map select_purchase
       (order_by (\<lambda>((pu, _), _) ((pu', _), _).
                    desc_nulls_first (pu_purchase_date pu) (pu_purchase_date pu'))
          (from_purchase_joined d))"

definition select_products :: "env \<Rightarrow> database \<Rightarrow> (int \<times> string) list" where
  "select_products ev d =
     map (\<lambda>p. (pr_id p, pr_product_name p))
       (order_by (\<lambda>p q. collate_le ev (pr_product_name p) (pr_product_name q)) (Product d))"

definition select_suppliers :: "env \<Rightarrow> database \<Rightarrow> (int \<times> string) list" where
  "select_suppliers ev d =
     map (\<lambda>s. (s_id s, s_supplier_name s))
       (order_by (\<lambda>s t. collate_le ev (s_supplier_name s) (s_supplier_name t)) (Supplier d))"

definition purchases :: "env \<Rightarrow> state \<Rightarrow> result" where
  "purchases ev st =
     (Inr (Render_purchase (select_purchases (db st)) (select_products ev (db st))
             (select_suppliers ev (db st))), st)"

definition purchases_route :: "env \<Rightarrow> state \<Rightarrow> result" where
  "purchases_route ev = login_required (purchases ev)"

text \<open>The INSERT of \<^verbatim>\<open>add_purchase\<close>. The two ids and the date arrive as strings
  and are converted by the server when it reads the statement; the two quantities arrive
  as Python integers and must fit an INTEGER column when the row is built; the REFERENCES
  constraints are checked last. The columns left out take their defaults. Nothing is
  stored unless every conversion and both constraints pass.\<close>

definition in_int4 :: "int \<Rightarrow> bool" where
  "in_int4 q = (- 2147483648 \<le> q \<and> q \<le> 2147483647)"

definition insert_purchase ::
  "env \<Rightarrow> ctx \<Rightarrow> string \<Rightarrow> string \<Rightarrow> int \<Rightarrow> int \<Rightarrow> string \<Rightarrow> database \<Rightarrow> db_error + database" where
  "insert_purchase ev cx product_id supplier_id purchase_quantity remaining_quantity
       expiration_date d =
     (case pg_int4in ev product_id of
        None \<Rightarrow> Inl (DataError ''product_id'')
      | Some pid \<Rightarrow>
     (case pg_int4in ev supplier_id of
        None \<Rightarrow> Inl (DataError ''supplier_id'')
      | Some sid \<Rightarrow>
     (case pg_date_in ev expiration_date of
        None \<Rightarrow> Inl (DataError ''expiration_date'')
      | Some ed \<Rightarrow>
     if \<not> in_int4 purchase_quantity then Inl (DataError ''purchase_quantity'')
     else if \<not> in_int4 remaining_quantity then Inl (DataError ''remaining_quantity'')
     else if pid \<notin> set (map pr_id (Product d)) then Inl (ForeignKeyViolation ''product_id'')
     else if sid \<notin> set (map s_id (Supplier d)) then Inl (ForeignKeyViolation ''supplier_id'')
     else Inr (d\<lparr>Purchase := Purchase d @
                 [\<lparr>pu_id = nextval_purchase cx, pu_product_id = Some pid,
                   pu_supplier_id = Some sid, pu_batch_number = None,
                   pu_purchase_quantity = purchase_quantity,
                   pu_remaining_quantity = remaining_quantity,
                   pu_expiration_date = Some ed, pu_status = Some ''in stock'',
                   pu_purchase_date = Some (now cx)\<rparr>]\<rparr>))))"

definition add_purchase :: "env \<Rightarrow> ctx \<Rightarrow> form \<Rightarrow> state \<Rightarrow> result" where
  "add_purchase ev cx frm st =
     (case frm ''product_id'' of
        None \<Rightarrow> (Inl (BadRequestKeyError ''product_id''), st)
      | Some product_id \<Rightarrow>
     (case frm ''supplier_id'' of
        None \<Rightarrow> (Inl (BadRequestKeyError ''supplier_id''), st)
      | Some supplier_id \<Rightarrow>
     (case frm ''purchase_quantity'' of
        None \<Rightarrow> (Inl (BadRequestKeyError ''purchase_quantity''), st)
      | Some q \<Rightarrow>
     (case py_int ev q of
        None \<Rightarrow> (Inl ValueError, st)
      | Some qty \<Rightarrow>
     (case frm ''expiration_date'' of
        None \<Rightarrow> (Inl (BadRequestKeyError ''expiration_date''), st)
      | Some expiration \<Rightarrow>
     (case insert_purchase ev cx product_id supplier_id qty qty expiration (db st) of
        Inl e \<Rightarrow> (Inl (DatabaseError e), st)
      | Inr d' \<Rightarrow>
     (case username (session st) of
        None \<Rightarrow> (Inl (KeyError ''username''), st\<lparr>db := d'\<rparr>)
      | Some u \<Rightarrow>
          (Inr (Jsonify_success True),
           st\<lparr>db := log_activity cx u ''Added stock-in'' d'\<rparr>))))))))"

definition add_purchase_route :: "env \<Rightarrow> ctx \<Rightarrow> form \<Rightarrow> state \<Rightarrow> result" where
  "add_purchase_route ev cx frm = login_required (add_purchase ev cx frm)"

subsection \<open>A concrete environment, database and requests\<close>

text \<open>The theorems below hold for every environment. To evaluate the handlers on
  concrete requests, the imported functions are given stand-ins: a password hash that
  prefixes the password, decimal numerals with an optional minus sign for the integer
  conversions, dates written YYYY-MM-DD, and byte order for the collation.\<close>

definition digit_value :: "char \<Rightarrow> int option" where
  "digit_value c =
     (let n = (of_char c :: nat) in if 48 \<le> n \<and> n \<le> 57 then Some (int n - 48) else None)"

fun digits_value :: "int \<Rightarrow> string \<Rightarrow> int option" where
  "digits_value acc [] = Some acc"
| "digits_value acc (c # cs) =
     (case digit_value c of None \<Rightarrow> None | Some v \<Rightarrow> digits_value (10 * acc + v) cs)"

definition decimal :: "string \<Rightarrow> int option" where
  "decimal s =
     (case s of
        [] \<Rightarrow> None
      | c # cs \<Rightarrow>
          if c = CHR ''-'' then (if cs = [] then None else map_option uminus (digits_value 0 cs))
          else digits_value 0 s)"

definition iso_date :: "string \<Rightarrow> date option" where
  "iso_date s =
     (if length s = 10 \<and> s ! 4 = CHR ''-'' \<and> s ! 7 = CHR ''-''
      then digits_value 0 (filter (\<lambda>c. c \<noteq> CHR ''-'') s) else None)"

fun bytes_le :: "string \<Rightarrow> string \<Rightarrow> bool" where
  "bytes_le [] _ = True"
| "bytes_le (a # as) [] = False"
| "bytes_le (a # as) (b # bs) =
     ((of_char a :: nat) < of_char b \<or> (a = b \<and> bytes_le as bs))"

definition demo_env :: env where
  "demo_env =
     \<lparr>check_password_hash = (\<lambda>pwhash password. pwhash = ''hash:'' @ password),
      py_int = decimal,
      pg_int4in = (\<lambda>s. case decimal s of
                           None \<Rightarrow> None
                         | Some v \<Rightarrow> if in_int4 v then Some v else None),
      pg_date_in = iso_date,
      collate_le = bytes_le\<rparr>"

definition demo_ctx :: ctx where
  "demo_ctx = \<lparr>now = 300, nextval_user_activity = 1, nextval_purchase = 3\<rparr>"

definition demo_db :: database where
  "demo_db =
     \<lparr>users =
        [\<lparr>u_id = 1, u_username = ''admin'', u_password = ''hash:secret'',
          u_full_name = ''Administrator'', u_role = Some ''admin'', u_created_at = Some 0\<rparr>,
         \<lparr>u_id = 2, u_username = [], u_password = ''hash:guest'',
          u_full_name = ''Guest'', u_role = None, u_created_at = Some 0\<rparr>],
      user_activity = [],
      Category = [],
      Product =
        [\<lparr>pr_id = 1, pr_product_name = ''Paracetamol'', pr_product_type = ''medicine'',
          pr_category_id = None, pr_stock_quantity = Some 50,
          pr_stock_status = Some ''in stock'', pr_status = Some ''active'',
          pr_created_at = Some 0\<rparr>,
         \<lparr>pr_id = 2, pr_product_name = ''Gauze'', pr_product_type = ''supply'',
          pr_category_id = None, pr_stock_quantity = Some 20,
          pr_stock_status = Some ''in stock'', pr_status = Some ''active'',
          pr_created_at = Some 0\<rparr>,
         \<lparr>pr_id = 3, pr_product_name = ''Syrup'', pr_product_type = ''medicine'',
          pr_category_id = None, pr_stock_quantity = Some 7,
          pr_stock_status = Some ''in stock'', pr_status = Some ''inactive'',
          pr_created_at = Some 0\<rparr>],
      Supplier =
        [\<lparr>s_id = 1, s_supplier_name = ''Acme'', s_contact_person = None,
          s_contact_number = None, s_created_at = Some 0\<rparr>],
      Purchase =
        [\<lparr>pu_id = 1, pu_product_id = Some 1, pu_supplier_id = Some 1,
          pu_batch_number = Some ''B1'', pu_purchase_quantity = 10,
          pu_remaining_quantity = 10, pu_expiration_date = Some 20250101,
          pu_status = Some ''in stock'', pu_purchase_date = Some 100\<rparr>,
         \<lparr>pu_id = 2, pu_product_id = Some 2, pu_supplier_id = None,
          pu_batch_number = None, pu_purchase_quantity = 5,
          pu_remaining_quantity = 3, pu_expiration_date = None,
          pu_status = Some ''in stock'', pu_purchase_date = Some 200\<rparr>],
      Order = [],
      notification = []\<rparr>"

definition admin_session :: session where
  "admin_session =
     \<lparr>logged_in = Some True, user_id = Some 1, username = Some ''admin'',
      name = Some ''Administrator'', role = Some (Some ''admin'')\<rparr>"

definition admin_state :: state where
  "admin_state = \<lparr>session = admin_session, db = demo_db\<rparr>"

definition anonymous_state :: state where
  "anonymous_state = \<lparr>session = session_clear, db = demo_db\<rparr>"

definition login_form :: "string \<Rightarrow> string \<Rightarrow> form" where
  "login_form u p = [''username'' \<mapsto> u, ''password'' \<mapsto> p]"

definition purchase_form :: "string \<Rightarrow> string \<Rightarrow> string \<Rightarrow> string \<Rightarrow> form" where
  "purchase_form product_id supplier_id purchase_quantity expiration_date =
     [''product_id'' \<mapsto> product_id, ''supplier_id'' \<mapsto> supplier_id,
      ''purchase_quantity'' \<mapsto> purchase_quantity, ''expiration_date'' \<mapsto> expiration_date]"

section \<open>Shared lemmas\<close>

lemma login_required_redirect:
  "\<not> truthy_bool (logged_in (session st)) \<Longrightarrow>
     login_required f st = (Inr (Redirect ''/''), st)"
  by (simp add: login_required_def)

lemma login_required_pass:
  "truthy_bool (logged_in (session st)) \<Longrightarrow> login_required f st = f st"
  by (simp add: login_required_def)

lemma logout_session: "session (snd (logout cx st)) = session_clear"
  by (simp add: logout_def Let_def)

lemma session_clear_not_logged_in: "\<not> truthy_bool (logged_in session_clear)"
  by (simp add: session_clear_def)

lemma sql_sum_or_0:
  "or_0 (sql_sum xs) = sum_list (map (\<lambda>x. case x of None \<Rightarrow> 0 | Some v \<Rightarrow> v) xs)"
proof (induction xs rule: sql_sum.induct)
  case 1
  show ?case by simp
next
  case (2 xs)
  then show ?case by simp
next
  case (3 v xs)
  then show ?case by (cases "sql_sum xs") (auto split: if_splits)
qed

lemma sql_sum_None_iff: "sql_sum xs = None \<longleftrightarrow> (\<forall>x\<in>set xs. x = None)"
  by (induction xs rule: sql_sum.induct) (auto split: option.splits)

lemma sum_case_count:
  "sum_list (map (\<lambda>p. if P p then 1 else 0) xs) = int (length (filter P xs))"
  by (induction xs) auto

lemma or_0_count:
  "or_0 (sql_sum (map (\<lambda>p. Some (if P p then 1 else 0)) xs)) = int (length (filter P xs))"
  by (simp add: sql_sum_or_0 comp_def sum_case_count)

lemma dashboard_eq:
  "dashboard st =
     (Inr (Render_admin
        (sum_list (map (\<lambda>p. case pr_stock_quantity p of None \<Rightarrow> 0 | Some q \<Rightarrow> q)
           (where_active (Product (db st)))))
        (int (length (filter (\<lambda>p. pr_product_type p = ''medicine'')
           (where_active (Product (db st))))))
        (int (length (filter (\<lambda>p. pr_product_type p = ''supply'')
           (where_active (Product (db st))))))), st)"
  by (simp add: dashboard_def select_total_stocks_def select_type_counts_def or_0_count
      sql_sum_or_0 [of "map pr_stock_quantity xs" for xs] comp_def)

lemma partition_length:
  "\<forall>x\<in>set xs. P x \<noteq> Q x \<Longrightarrow> length (filter P xs) + length (filter Q xs) = length xs"
  by (induction xs) auto

lemma find_unique:
  "distinct (map key xs) \<Longrightarrow> u \<in> set xs \<Longrightarrow> find (\<lambda>v. key v = key u) xs = Some u"
  by (induction xs) (auto simp: image_iff)

lemma find_no_match:
  "\<forall>v\<in>set xs. P v \<longrightarrow> \<not> Q v \<Longrightarrow> find P xs = Some v \<Longrightarrow> \<not> Q v"
  by (induction xs) (auto split: if_splits)

lemma login_required_session:
  "session (snd (f st)) = session st \<Longrightarrow> session (snd (login_required f st)) = session st"
  by (simp add: login_required_def)

lemma add_purchase_session: "session (snd (add_purchase ev cx frm st)) = session st"
  by (simp add: add_purchase_def split: option.splits sum.splits)

lemma session_keys_together:
  assumes "truthy_bool (logged_in (session st)) \<longrightarrow> username (session st) \<noteq> None"
  shows "truthy_bool (logged_in (session (snd (auth ev cx frm st)))) \<longrightarrow>
           username (session (snd (auth ev cx frm st))) \<noteq> None"
    and "\<not> truthy_bool (logged_in (session (snd (login st))))"
    and "\<not> truthy_bool (logged_in (session (snd (logout cx st))))"
    and "session (snd (dashboard_route st)) = session st"
    and "session (snd (purchases_route ev st)) = session st"
    and "session (snd (add_purchase_route ev cx frm st)) = session st"
proof -
  show "truthy_bool (logged_in (session (snd (auth ev cx frm st)))) \<longrightarrow>
           username (session (snd (auth ev cx frm st))) \<noteq> None"
    using assms by (auto simp: auth_def update_session_def split: option.splits)
  show "\<not> truthy_bool (logged_in (session (snd (login st))))"
    by (simp add: login_def session_clear_def)
  show "\<not> truthy_bool (logged_in (session (snd (logout cx st))))"
    by (simp add: logout_def Let_def session_clear_def)
  show "session (snd (dashboard_route st)) = session st"
    by (simp add: dashboard_route_def login_required_session dashboard_def
        split: prod.splits)
  show "session (snd (purchases_route ev st)) = session st"
    by (simp add: purchases_route_def login_required_session purchases_def)
  show "session (snd (add_purchase_route ev cx frm st)) = session st"
    by (simp add: add_purchase_route_def login_required_session add_purchase_session)
qed

lemma auth_missing_field:
  "frm ''username'' = None \<or> frm ''password'' = None \<Longrightarrow>
     auth ev cx frm st = (Inl (BadRequestKeyError ''username''), st)
     \<or> auth ev cx frm st = (Inl (BadRequestKeyError ''password''), st)"
  by (auto simp: auth_def split: option.splits)

lemma add_purchase_bad_field:
  assumes "frm ''product_id'' = None \<or> frm ''supplier_id'' = None
     \<or> frm ''purchase_quantity'' = None \<or> frm ''expiration_date'' = None
     \<or> (\<exists>q. frm ''purchase_quantity'' = Some q \<and> py_int ev q = None)"
  shows "\<exists>e. add_purchase ev cx frm st = (Inl e, st)
     \<and> ((\<exists>k. e = BadRequestKeyError k) \<or> e = ValueError)"
  using assms by (auto simp: add_purchase_def split: option.splits)

lemma insert_purchase_fk_product:
  "\<forall>p. pg_int4in ev product_id = Some p \<longrightarrow> p \<notin> set (map pr_id (Product d)) \<Longrightarrow>
     isl (insert_purchase ev cx product_id supplier_id q r ex d)"
  by (auto simp: insert_purchase_def split: option.splits)

lemma insert_purchase_fk_supplier:
  "\<forall>s. pg_int4in ev supplier_id = Some s \<longrightarrow> s \<notin> set (map s_id (Supplier d)) \<Longrightarrow>
     isl (insert_purchase ev cx product_id supplier_id q r ex d)"
  by (auto simp: insert_purchase_def split: option.splits)

lemma user_activity_log_activity:
  "user_activity (log_activity cx u a d) =
     user_activity d @
       [\<lparr>a_id = nextval_user_activity cx, a_username = u, a_activity = a,
         a_activity_time = Some (now cx)\<rparr>]"
  by (simp add: log_activity_def)

lemma Purchase_log_activity: "Purchase (log_activity cx u a d) = Purchase d"
  by (simp add: log_activity_def)

lemma user_activity_insert_purchase:
  "insert_purchase ev cx p s q r ex d = Inr d' \<Longrightarrow> user_activity d' = user_activity d"
  by (auto simp: insert_purchase_def split: option.splits if_splits)

lemma set_insort_by: "set (insort_by le x xs) = insert x (set xs)"
  by (induction xs) auto

lemma mset_insort_by: "mset (insort_by le x xs) = add_mset x (mset xs)"
  by (induction xs) auto

lemma mset_order_by: "mset (order_by le xs) = mset xs"
  by (induction xs) (auto simp: order_by_def mset_insort_by)

lemma sorted_insort_by:
  assumes total: "\<And>a b. le a b \<or> le b a"
    and trans: "\<And>a b c. le a b \<Longrightarrow> le b c \<Longrightarrow> le a c"
  shows "sorted_wrt le xs \<Longrightarrow> sorted_wrt le (insort_by le x xs)"
proof (induction xs)
  case Nil
  then show ?case by simp
next
  case (Cons y ys)
  show ?case
  proof (cases "le x y")
    case True
    have "\<forall>z\<in>set ys. le x z"
      using True Cons.prems trans by auto
    with True Cons.prems show ?thesis by simp
  next
    case False
    then have "le y x" using total by blast
    with False Cons show ?thesis by (simp add: set_insort_by)
  qed
qed

lemma sorted_order_by:
  assumes "\<And>a b. le a b \<or> le b a"
    and "\<And>a b c. le a b \<Longrightarrow> le b c \<Longrightarrow> le a c"
  shows "sorted_wrt le (order_by le xs)"
proof (induction xs)
  case Nil
  show ?case by (simp add: order_by_def)
next
  case (Cons x xs)
  have "order_by le (x # xs) = insort_by le x (order_by le xs)"
    by (simp add: order_by_def)
  with Cons sorted_insort_by [of le, OF assms] show ?case by simp
qed

lemma desc_nulls_first_total: "desc_nulls_first a b \<or> desc_nulls_first b a"
  by (cases a; cases b) auto

lemma desc_nulls_first_trans:
  "desc_nulls_first a b \<Longrightarrow> desc_nulls_first b c \<Longrightarrow> desc_nulls_first a c"
  by (cases a; cases b; cases c) auto

lemma left_join_Nil: "left_join on [] ys = []"
  by (simp add: left_join_def)

lemma left_join_Cons:
  "left_join on (x # xs) ys =
     (if filter (on x) ys = [] then [(x, None)] else map (\<lambda>y. (x, Some y)) (filter (on x) ys))
     @ left_join on xs ys"
  by (simp add: left_join_def split: list.splits)

lemma left_join_Some:
  "(x, Some y) \<in> set (left_join on xs ys) \<longleftrightarrow> x \<in> set xs \<and> y \<in> set ys \<and> on x y"
  by (induction xs) (auto simp: left_join_Nil left_join_Cons filter_empty_conv)

lemma left_join_None:
  "(x, None) \<in> set (left_join on xs ys) \<longleftrightarrow> x \<in> set xs \<and> (\<forall>y\<in>set ys. \<not> on x y)"
  by (induction xs) (auto simp: left_join_Nil left_join_Cons filter_empty_conv)

lemma v_purchase_date_select: "v_purchase_date (select_purchase r) = pu_purchase_date (fst (fst r))"
  by (cases r) (auto simp: select_purchase_def)

lemma mset_select_purchases:
  "mset (select_purchases d) = mset (map select_purchase (from_purchase_joined d))"
  by (simp add: select_purchases_def mset_order_by)

lemma sorted_select_purchases:
  "sorted_wrt (\<lambda>a b. desc_nulls_first (v_purchase_date a) (v_purchase_date b))
     (select_purchases d)"
proof -
  let ?le = "\<lambda>r r'. desc_nulls_first (pu_purchase_date (fst (fst r)))
      (pu_purchase_date (fst (fst r')))"
  have le: "(\<lambda>((pu, _), _) ((pu', _), _).
      desc_nulls_first (pu_purchase_date pu) (pu_purchase_date pu')) = ?le"
    by (auto simp: fun_eq_iff)
  have "sorted_wrt ?le (order_by ?le (from_purchase_joined d))"
  proof (rule sorted_order_by)
    show "?le a b \<or> ?le b a" for a b
      by (rule desc_nulls_first_total)
    show "?le a b \<Longrightarrow> ?le b c \<Longrightarrow> ?le a c" for a b c
      by (rule desc_nulls_first_trans)
  qed
  then show ?thesis
    by (simp add: select_purchases_def le sorted_wrt_map v_purchase_date_select)
qed

lemma from_purchase_joined_iff:
  "((pu, pr), s) \<in> set (from_purchase_joined d) \<longleftrightarrow>
     pu \<in> set (Purchase d)
     \<and> (case pr of
          Some p \<Rightarrow> p \<in> set (Product d) \<and> pu_product_id pu = Some (pr_id p)
        | None \<Rightarrow> \<forall>p\<in>set (Product d). pu_product_id pu \<noteq> Some (pr_id p))
     \<and> (case s of
          Some t \<Rightarrow> t \<in> set (Supplier d) \<and> pu_supplier_id pu = Some (s_id t)
        | None \<Rightarrow> \<forall>t\<in>set (Supplier d). pu_supplier_id pu \<noteq> Some (s_id t))"
  by (cases pr; cases s)
    (auto simp: from_purchase_joined_def left_join_Some left_join_None)

section \<open>Session gate and session clearing\<close>

text \<open>
  Claim C6. GET / clears the session before it renders the login form (with no error
  message), and GET /logout clears the session and redirects to /, whatever the session
  held before. Neither can fail.
\<close>

theorem login_logout_clear_session:
  "login st = (Inr (Render_index None), \<lparr>session = session_clear, db = db st\<rparr>)
   \<and> fst (logout cx st) = Inr (Redirect ''/'')
   \<and> session (snd (logout cx st)) = session_clear"
  by (simp add: login_def logout_def Let_def)

theorem login_logout_clear_session_witness:
  "login admin_state = (Inr (Render_index None), anonymous_state)
   \<and> fst (logout demo_ctx admin_state) = Inr (Redirect ''/'')
   \<and> session (snd (logout demo_ctx admin_state)) = session_clear"
  using login_logout_clear_session [of admin_state demo_ctx]
  by (simp add: admin_state_def anonymous_state_def)

text \<open>
  Claim C4. A request to a route wrapped by \<open>login_required\<close> whose session has no
  truthy \<open>logged_in\<close> flag is answered by a redirect to the login page: the result
  is the same for every wrapped handler \<open>f\<close>, so the handler is not run, the result
  is a response and not an exception, and the state is the one the request found. The
  state that /logout leaves is such a state, for all three protected routes.
\<close>

theorem login_required_gate:
  "(\<not> truthy_bool (logged_in (session st)) \<longrightarrow>
      login_required f st = (Inr (Redirect ''/''), st)
      \<and> dashboard_route st = (Inr (Redirect ''/''), st)
      \<and> purchases_route ev st = (Inr (Redirect ''/''), st)
      \<and> add_purchase_route ev cx frm st = (Inr (Redirect ''/''), st))
   \<and> login_required f (snd (logout cx st)) = (Inr (Redirect ''/''), snd (logout cx st))
   \<and> dashboard_route (snd (logout cx st)) = (Inr (Redirect ''/''), snd (logout cx st))
   \<and> purchases_route ev (snd (logout cx st)) = (Inr (Redirect ''/''), snd (logout cx st))
   \<and> add_purchase_route ev cx frm (snd (logout cx st)) =
       (Inr (Redirect ''/''), snd (logout cx st))"
proof -
  have out: "\<not> truthy_bool (logged_in (session (snd (logout cx st))))"
    by (simp add: logout_session session_clear_not_logged_in)
  show ?thesis
    using out
    by (simp add: dashboard_route_def purchases_route_def add_purchase_route_def
        login_required_redirect)
qed

theorem login_required_gate_witness:
  "\<not> truthy_bool (logged_in (session anonymous_state))
   \<and> dashboard_route anonymous_state = (Inr (Redirect ''/''), anonymous_state)
   \<and> purchases_route demo_env anonymous_state = (Inr (Redirect ''/''), anonymous_state)
   \<and> add_purchase_route demo_env demo_ctx (purchase_form ''1'' ''1'' ''100'' ''2025-01-01'')
        anonymous_state = (Inr (Redirect ''/''), anonymous_state)
   \<and> snd (add_purchase_route demo_env demo_ctx (purchase_form ''1'' ''1'' ''100'' ''2025-01-01'')
        (snd (logout demo_ctx admin_state))) = snd (logout demo_ctx admin_state)"
proof -
  have h: "\<not> truthy_bool (logged_in (session anonymous_state))"
    by (simp add: anonymous_state_def session_clear_def)
  show ?thesis
    using h login_required_gate [of anonymous_state dashboard demo_env demo_ctx
        "purchase_form ''1'' ''1'' ''100'' ''2025-01-01''"]
      login_required_gate [of admin_state dashboard demo_env demo_ctx
        "purchase_form ''1'' ''1'' ''100'' ''2025-01-01''"]
    by simp
qed

section \<open>Dashboard\<close>

text \<open>
  Claim C3. The dashboard renders as total_stocks the sum of stock_quantity over the
  Product rows with status 'active' (a NULL quantity adds nothing), and as medicines and
  supplies the numbers of active rows of each type. Under the CHECK constraint on
  product_type every active row is of exactly one of the two types, so the two counts
  add up to the number of active rows. The state is not changed, and the route runs the
  handler when the session is logged in.
\<close>

theorem dashboard_aggregates:
  "dashboard st =
     (Inr (Render_admin
        (sum_list (map (\<lambda>p. case pr_stock_quantity p of None \<Rightarrow> 0 | Some q \<Rightarrow> q)
           (where_active (Product (db st)))))
        (int (length (filter (\<lambda>p. pr_product_type p = ''medicine'')
           (where_active (Product (db st))))))
        (int (length (filter (\<lambda>p. pr_product_type p = ''supply'')
           (where_active (Product (db st))))))), st)
   \<and> (check_product_type (db st) \<longrightarrow>
        (\<forall>p\<in>set (where_active (Product (db st))).
           (pr_product_type p = ''medicine'') \<noteq> (pr_product_type p = ''supply''))
        \<and> length (filter (\<lambda>p. pr_product_type p = ''medicine'') (where_active (Product (db st))))
          + length (filter (\<lambda>p. pr_product_type p = ''supply'') (where_active (Product (db st))))
          = length (where_active (Product (db st))))
   \<and> (truthy_bool (logged_in (session st)) \<longrightarrow> dashboard_route st = dashboard st)"
proof -
  have part: "\<forall>p\<in>set (where_active (Product (db st))).
      (pr_product_type p = ''medicine'') \<noteq> (pr_product_type p = ''supply'')"
    if "check_product_type (db st)"
    using that by (auto simp: check_product_type_def where_active_def list_all_iff)
  show ?thesis
    using part partition_length [OF part]
    by (simp add: dashboard_eq dashboard_route_def login_required_pass)
qed

theorem dashboard_aggregates_witness:
  "check_product_type (db admin_state) \<and> truthy_bool (logged_in (session admin_state))
   \<and> dashboard_route admin_state = (Inr (Render_admin 70 1 1), admin_state)
   \<and> length (where_active (Product (db admin_state))) = 2"
proof -
  have h: "check_product_type (db admin_state)" "truthy_bool (logged_in (session admin_state))"
    by (simp_all add: check_product_type_def admin_state_def demo_db_def admin_session_def)
  show ?thesis
    using h dashboard_aggregates [of admin_state]
    by (simp add: where_active_def admin_state_def demo_db_def)
qed

text \<open>
  Claim C10. With no active Product row the dashboard renders 0, 0 and 0; and each
  rendered number is 0 whenever its aggregate is NULL. The rendered values are integers:
  a NULL never reaches the template.
\<close>

theorem dashboard_coalesces_null:
  "(where_active (Product (db st)) = [] \<longrightarrow> dashboard st = (Inr (Render_admin 0 0 0), st))
   \<and> (select_total_stocks (db st) = None \<longrightarrow>
        (\<exists>m s. dashboard st = (Inr (Render_admin 0 m s), st)))
   \<and> (fst (select_type_counts (db st)) = None \<longrightarrow>
        (\<exists>t s. dashboard st = (Inr (Render_admin t 0 s), st)))
   \<and> (snd (select_type_counts (db st)) = None \<longrightarrow>
        (\<exists>t m. dashboard st = (Inr (Render_admin t m 0), st)))"
  by (auto simp: dashboard_def select_total_stocks_def select_type_counts_def)

theorem dashboard_coalesces_null_witness:
  "where_active (Product (db (admin_state\<lparr>db := demo_db\<lparr>Product := []\<rparr>\<rparr>))) = []
   \<and> select_total_stocks (db (admin_state\<lparr>db := demo_db\<lparr>Product := []\<rparr>\<rparr>)) = None
   \<and> select_type_counts (db (admin_state\<lparr>db := demo_db\<lparr>Product := []\<rparr>\<rparr>)) = (None, None)
   \<and> dashboard (admin_state\<lparr>db := demo_db\<lparr>Product := []\<rparr>\<rparr>) =
       (Inr (Render_admin 0 0 0), admin_state\<lparr>db := demo_db\<lparr>Product := []\<rparr>\<rparr>)"
  using dashboard_coalesces_null [of "admin_state\<lparr>db := demo_db\<lparr>Product := []\<rparr>\<rparr>"]
  by (simp add: where_active_def select_total_stocks_def select_type_counts_def)

section \<open>Authentication\<close>

text \<open>
  Claim C1. A POST /auth that submits a username and a password either finds a stored
  row with that username whose hash verifies the password, and then answers with a
  redirect to /dashboard, the five session keys set from that row and the login logged;
  or finds no such row, and then renders the login page with the error message and
  sets no session key: the state is the one the request came with, so the empty session
  that GET / leaves remains empty.
  Usernames are unique, as the table declares, so the row that \<open>fetchone\<close> returns
  is the one row with that username.
\<close>

theorem auth_establishes_session:
  assumes "frm ''username'' = Some uname" and "frm ''password'' = Some password"
  shows
    "(\<forall>user\<in>set (users (db st)).
        unique_username (db st) \<and> u_username user = uname
          \<and> check_password_hash ev (u_password user) password \<longrightarrow>
        auth ev cx frm st =
          (Inr (Redirect ''/dashboard''),
           \<lparr>session =
              \<lparr>logged_in = Some True, user_id = Some (u_id user),
               username = Some (u_username user), name = Some (u_full_name user),
               role = Some (u_role user)\<rparr>,
            db = log_activity cx uname ''Logged in'' (db st)\<rparr>))
     \<and> ((\<forall>user\<in>set (users (db st)).
           u_username user = uname \<longrightarrow> \<not> check_password_hash ev (u_password user) password) \<longrightarrow>
         auth ev cx frm st = (Inr (Render_index (Some ''Invalid login'')), st)
         \<and> session (snd (auth ev cx frm st)) = session st
         \<and> (session st = session_clear \<longrightarrow> session (snd (auth ev cx frm st)) = session_clear))"
proof (intro conjI ballI impI)
  fix user
  assume u: "user \<in> set (users (db st))"
    and h: "unique_username (db st) \<and> u_username user = uname
          \<and> check_password_hash ev (u_password user) password"
  from h have "distinct (map u_username (users (db st)))"
    by (simp add: unique_username_def)
  from find_unique [OF this u] h
  have f: "find (\<lambda>v. u_username v = uname) (users (db st)) = Some user"
    by simp
  show "auth ev cx frm st =
          (Inr (Redirect ''/dashboard''),
           \<lparr>session =
              \<lparr>logged_in = Some True, user_id = Some (u_id user),
               username = Some (u_username user), name = Some (u_full_name user),
               role = Some (u_role user)\<rparr>,
            db = log_activity cx uname ''Logged in'' (db st)\<rparr>)"
    using assms f h by (simp add: auth_def update_session_def)
next
  assume no: "\<forall>user\<in>set (users (db st)).
           u_username user = uname \<longrightarrow> \<not> check_password_hash ev (u_password user) password"
  show r: "auth ev cx frm st = (Inr (Render_index (Some ''Invalid login'')), st)"
  proof (cases "find (\<lambda>u. u_username u = uname) (users (db st))")
    case None
    with assms show ?thesis by (simp add: auth_def)
  next
    case (Some user)
    from find_no_match [OF no Some]
    have "\<not> check_password_hash ev (u_password user) password" .
    with assms Some show ?thesis by (simp add: auth_def)
  qed
  show "session (snd (auth ev cx frm st)) = session st"
    by (simp add: r)
  show "session (snd (auth ev cx frm st)) = session_clear" if "session st = session_clear"
    using that by (simp add: r)
qed

theorem auth_establishes_session_witness:
  "auth demo_env demo_ctx (login_form ''admin'' ''secret'') anonymous_state =
     (Inr (Redirect ''/dashboard''),
      \<lparr>session = admin_session,
       db = log_activity demo_ctx ''admin'' ''Logged in'' demo_db\<rparr>)
   \<and> auth demo_env demo_ctx (login_form ''admin'' ''wrong'') anonymous_state =
     (Inr (Render_index (Some ''Invalid login'')), anonymous_state)
   \<and> auth demo_env demo_ctx (login_form ''nobody'' ''secret'') anonymous_state =
     (Inr (Render_index (Some ''Invalid login'')), anonymous_state)
   \<and> session (snd (auth demo_env demo_ctx (login_form ''nobody'' ''secret'') anonymous_state)) =
     session_clear"
  using
    auth_establishes_session [where frm = "login_form ''admin'' ''secret''"
      and uname = "''admin''" and password = "''secret''" and st = anonymous_state
      and ev = demo_env and cx = demo_ctx]
    auth_establishes_session [where frm = "login_form ''admin'' ''wrong''"
      and uname = "''admin''" and password = "''wrong''" and st = anonymous_state
      and ev = demo_env and cx = demo_ctx]
    auth_establishes_session [where frm = "login_form ''nobody'' ''secret''"
      and uname = "''nobody''" and password = "''secret''" and st = anonymous_state
      and ev = demo_env and cx = demo_ctx]
  by (simp add: login_form_def anonymous_state_def demo_db_def demo_env_def
      unique_username_def admin_session_def)

section \<open>Malformed forms\<close>

text \<open>
  Claim C9. A POST /auth without a username or a password field raises at the field
  access, and so does the add-purchase handler when one of its four fields is missing
  or when purchase_quantity is not accepted by \<open>int\<close>: the result is an exception
  (a key error of the form, or ValueError), never a response, and nothing is changed.
  On the route the handler runs when the session is logged in.
\<close>

theorem bad_form_raises:
  "((frm ''username'' = None \<or> frm ''password'' = None) \<longrightarrow>
      (\<exists>k. auth ev cx frm st = (Inl (BadRequestKeyError k), st)))
   \<and> ((frm ''product_id'' = None \<or> frm ''supplier_id'' = None
        \<or> frm ''purchase_quantity'' = None \<or> frm ''expiration_date'' = None
        \<or> (\<exists>q. frm ''purchase_quantity'' = Some q \<and> py_int ev q = None)) \<longrightarrow>
      (\<exists>e. add_purchase ev cx frm st = (Inl e, st)
         \<and> ((\<exists>k. e = BadRequestKeyError k) \<or> e = ValueError)
         \<and> (truthy_bool (logged_in (session st)) \<longrightarrow>
              add_purchase_route ev cx frm st = (Inl e, st))))"
proof (intro conjI impI)
  assume "frm ''username'' = None \<or> frm ''password'' = None"
  from auth_missing_field [OF this]
  show "\<exists>k. auth ev cx frm st = (Inl (BadRequestKeyError k), st)"
    by blast
next
  assume "frm ''product_id'' = None \<or> frm ''supplier_id'' = None
        \<or> frm ''purchase_quantity'' = None \<or> frm ''expiration_date'' = None
        \<or> (\<exists>q. frm ''purchase_quantity'' = Some q \<and> py_int ev q = None)"
  from add_purchase_bad_field [OF this]
  obtain e where e: "add_purchase ev cx frm st = (Inl e, st)"
    "(\<exists>k. e = BadRequestKeyError k) \<or> e = ValueError"
    by blast
  then show "\<exists>e. add_purchase ev cx frm st = (Inl e, st)
         \<and> ((\<exists>k. e = BadRequestKeyError k) \<or> e = ValueError)
         \<and> (truthy_bool (logged_in (session st)) \<longrightarrow>
              add_purchase_route ev cx frm st = (Inl e, st))"
    by (auto simp: add_purchase_route_def login_required_pass)
qed

theorem bad_form_raises_witness:
  "auth demo_env demo_ctx [''username'' \<mapsto> ''admin''] anonymous_state =
     (Inl (BadRequestKeyError ''password''), anonymous_state)
   \<and> add_purchase_route demo_env demo_ctx (purchase_form ''1'' ''1'' ''abc'' ''2025-01-01'')
       admin_state = (Inl ValueError, admin_state)
   \<and> add_purchase_route demo_env demo_ctx
       [''product_id'' \<mapsto> ''1'', ''supplier_id'' \<mapsto> ''1'', ''purchase_quantity'' \<mapsto> ''100'']
       admin_state = (Inl (BadRequestKeyError ''expiration_date''), admin_state)"
  using
    bad_form_raises [where frm = "[''username'' \<mapsto> ''admin'']" and st = anonymous_state
      and ev = demo_env and cx = demo_ctx]
    bad_form_raises [where frm = "purchase_form ''1'' ''1'' ''abc'' ''2025-01-01''"
      and st = admin_state and ev = demo_env and cx = demo_ctx]
    bad_form_raises [where st = admin_state and ev = demo_env and cx = demo_ctx and frm =
      "[''product_id'' \<mapsto> ''1'', ''supplier_id'' \<mapsto> ''1'', ''purchase_quantity'' \<mapsto> ''100'']"]
  by (simp add: auth_def add_purchase_route_def login_required_def add_purchase_def
      purchase_form_def admin_state_def admin_session_def demo_env_def decimal_def
      digit_value_def)

section \<open>Stock-in\<close>

text \<open>
  Claim C5. When the INSERT of add-purchase fails (for instance because product_id or
  supplier_id is the key of no row), the handler raises that database error and the
  state is the one the request found: no Purchase row is stored and
  \<open>log_activity\<close> is not reached, so no user_activity row either.
\<close>

theorem add_purchase_insert_fails:
  assumes "frm ''product_id'' = Some product_id" and "frm ''supplier_id'' = Some supplier_id"
    and "frm ''purchase_quantity'' = Some q" and "py_int ev q = Some qty"
    and "frm ''expiration_date'' = Some expiration"
  shows
    "(\<forall>e. insert_purchase ev cx product_id supplier_id qty qty expiration (db st) = Inl e \<longrightarrow>
        add_purchase ev cx frm st = (Inl (DatabaseError e), st)
        \<and> (truthy_bool (logged_in (session st)) \<longrightarrow>
             add_purchase_route ev cx frm st = (Inl (DatabaseError e), st)))
     \<and> ((\<forall>p. pg_int4in ev product_id = Some p \<longrightarrow> p \<notin> set (map pr_id (Product (db st)))) \<longrightarrow>
          isl (insert_purchase ev cx product_id supplier_id qty qty expiration (db st)))
     \<and> ((\<forall>s. pg_int4in ev supplier_id = Some s \<longrightarrow> s \<notin> set (map s_id (Supplier (db st)))) \<longrightarrow>
          isl (insert_purchase ev cx product_id supplier_id qty qty expiration (db st)))"
  using assms
  by (simp add: add_purchase_def add_purchase_route_def login_required_pass
      insert_purchase_fk_product insert_purchase_fk_supplier)

theorem add_purchase_insert_fails_witness:
  "insert_purchase demo_env demo_ctx ''1'' ''77'' 100 100 ''2025-01-01'' (db admin_state) =
     Inl (ForeignKeyViolation ''supplier_id'')
   \<and> add_purchase_route demo_env demo_ctx (purchase_form ''1'' ''77'' ''100'' ''2025-01-01'')
       admin_state = (Inl (DatabaseError (ForeignKeyViolation ''supplier_id'')), admin_state)
   \<and> insert_purchase demo_env demo_ctx ''42'' ''1'' 100 100 ''2025-01-01'' (db admin_state) =
     Inl (ForeignKeyViolation ''product_id'')
   \<and> add_purchase_route demo_env demo_ctx (purchase_form ''42'' ''1'' ''100'' ''2025-01-01'')
       admin_state = (Inl (DatabaseError (ForeignKeyViolation ''product_id'')), admin_state)"
  using
    add_purchase_insert_fails [where frm = "purchase_form ''1'' ''77'' ''100'' ''2025-01-01''"
      and product_id = "''1''" and supplier_id = "''77''" and q = "''100''" and qty = 100
      and expiration = "''2025-01-01''" and ev = demo_env and cx = demo_ctx
      and st = admin_state]
    add_purchase_insert_fails [where frm = "purchase_form ''42'' ''1'' ''100'' ''2025-01-01''"
      and product_id = "''42''" and supplier_id = "''1''" and q = "''100''" and qty = 100
      and expiration = "''2025-01-01''" and ev = demo_env and cx = demo_ctx
      and st = admin_state]
  by (simp add: purchase_form_def insert_purchase_def admin_state_def admin_session_def
      demo_db_def demo_env_def decimal_def digit_value_def iso_date_def in_int4_def)

text \<open>
  Claim C2, as amended. An authenticated POST /add-purchase (a session with the
  \<open>logged_in\<close> flag and the username that \<open>auth\<close> stores with it, see
  \<open>session_keys_together\<close>) whose four fields are present, whose quantity is an
  integer \<open>Q\<close> that fits an INTEGER column, whose two ids convert to keys of stored
  Product and Supplier rows and whose date converts, appends exactly one Purchase row,
  with purchase_quantity and remaining_quantity both \<open>Q\<close>, and answers with the JSON
  body of \<open>jsonify(success=True)\<close>.
\<close>

theorem add_purchase_inserts_row:
  assumes "truthy_bool (logged_in (session st))" and "username (session st) = Some u"
    and "frm ''product_id'' = Some product_id" and "frm ''supplier_id'' = Some supplier_id"
    and "frm ''purchase_quantity'' = Some q" and "frm ''expiration_date'' = Some expiration"
    and "py_int ev q = Some Q" and "in_int4 Q"
    and "pg_int4in ev product_id = Some pid" and "pid \<in> set (map pr_id (Product (db st)))"
    and "pg_int4in ev supplier_id = Some sid" and "sid \<in> set (map s_id (Supplier (db st)))"
    and "pg_date_in ev expiration = Some ed"
  shows
    "\<exists>row. add_purchase_route ev cx frm st =
        (Inr (Jsonify_success True),
         st\<lparr>db := log_activity cx u ''Added stock-in''
                 ((db st)\<lparr>Purchase := Purchase (db st) @ [row]\<rparr>)\<rparr>)
      \<and> Purchase (db (snd (add_purchase_route ev cx frm st))) = Purchase (db st) @ [row]
      \<and> pu_purchase_quantity row = Q \<and> pu_remaining_quantity row = Q
      \<and> pu_remaining_quantity row \<le> pu_purchase_quantity row
      \<and> pu_product_id row = Some pid \<and> pu_supplier_id row = Some sid
      \<and> pu_expiration_date row = Some ed"
  using assms
  by (simp add: add_purchase_route_def login_required_pass add_purchase_def
      insert_purchase_def Purchase_log_activity)

theorem add_purchase_inserts_row_witness:
  "add_purchase_route demo_env demo_ctx (purchase_form ''1'' ''1'' ''100'' ''2025-01-01'')
       admin_state =
     (Inr (Jsonify_success True),
      admin_state\<lparr>db := log_activity demo_ctx ''admin'' ''Added stock-in''
        (demo_db\<lparr>Purchase := Purchase demo_db @
           [\<lparr>pu_id = 3, pu_product_id = Some 1, pu_supplier_id = Some 1,
             pu_batch_number = None, pu_purchase_quantity = 100,
             pu_remaining_quantity = 100, pu_expiration_date = Some 20250101,
             pu_status = Some ''in stock'', pu_purchase_date = Some 300\<rparr>]\<rparr>)\<rparr>)"
  using add_purchase_inserts_row [where frm = "purchase_form ''1'' ''1'' ''100'' ''2025-01-01''"
      and product_id = "''1''" and supplier_id = "''1''" and q = "''100''" and Q = 100
      and expiration = "''2025-01-01''" and ev = demo_env and cx = demo_ctx
      and st = admin_state and u = "''admin''" and pid = 1 and sid = 1 and ed = 20250101]
  by (simp add: add_purchase_route_def login_required_def add_purchase_def insert_purchase_def
      purchase_form_def admin_state_def admin_session_def demo_db_def demo_env_def
      demo_ctx_def decimal_def digit_value_def iso_date_def in_int4_def)

text \<open>The claim without the provisos fails: an authenticated request with all four
  fields whose product_id is the key of no Product row is refused by the REFERENCES
  constraint. It stores nothing and answers with an error.\<close>

theorem add_purchase_rejected_counterexample:
  "truthy_bool (logged_in (session admin_state))
   \<and> py_int demo_env ''5'' = Some 5
   \<and> add_purchase_route demo_env demo_ctx (purchase_form ''999'' ''1'' ''5'' ''2025-01-01'')
       admin_state = (Inl (DatabaseError (ForeignKeyViolation ''product_id'')), admin_state)"
  by (simp add: add_purchase_route_def login_required_def add_purchase_def insert_purchase_def
      purchase_form_def admin_state_def admin_session_def demo_db_def demo_env_def
      decimal_def digit_value_def iso_date_def in_int4_def)

section \<open>Purchases listing\<close>

text \<open>
  Claim C7. The purchases handler returns the state it was given. The rows it renders
  are a permutation of the projected left join of Purchase with Product and Supplier,
  ordered by purchase_date descending (NULL first); the two lookup lists hold the id and
  name of every Product row and of every Supplier row. The third conjunct says what the
  join holds: each purchase with every product and supplier its keys name, or with NULL
  where they name none.
\<close>

theorem purchases_pure_read:
  "snd (purchases ev st) = st
   \<and> (\<exists>rows products suppliers.
        fst (purchases ev st) = Inr (Render_purchase rows products suppliers)
        \<and> mset rows = mset (map select_purchase (from_purchase_joined (db st)))
        \<and> sorted_wrt (\<lambda>a b. desc_nulls_first (v_purchase_date a) (v_purchase_date b)) rows
        \<and> mset products = mset (map (\<lambda>p. (pr_id p, pr_product_name p)) (Product (db st)))
        \<and> mset suppliers = mset (map (\<lambda>s. (s_id s, s_supplier_name s)) (Supplier (db st))))
   \<and> (\<forall>pu pr s. ((pu, pr), s) \<in> set (from_purchase_joined (db st)) \<longleftrightarrow>
        pu \<in> set (Purchase (db st))
        \<and> (case pr of
             Some p \<Rightarrow> p \<in> set (Product (db st)) \<and> pu_product_id pu = Some (pr_id p)
           | None \<Rightarrow> \<forall>p\<in>set (Product (db st)). pu_product_id pu \<noteq> Some (pr_id p))
        \<and> (case s of
             Some t \<Rightarrow> t \<in> set (Supplier (db st)) \<and> pu_supplier_id pu = Some (s_id t)
           | None \<Rightarrow> \<forall>t\<in>set (Supplier (db st)). pu_supplier_id pu \<noteq> Some (s_id t)))
   \<and> (truthy_bool (logged_in (session st)) \<longrightarrow> purchases_route ev st = purchases ev st)"
proof (intro conjI allI)
  show "snd (purchases ev st) = st"
    by (simp add: purchases_def)
  show "\<exists>rows products suppliers.
        fst (purchases ev st) = Inr (Render_purchase rows products suppliers)
        \<and> mset rows = mset (map select_purchase (from_purchase_joined (db st)))
        \<and> sorted_wrt (\<lambda>a b. desc_nulls_first (v_purchase_date a) (v_purchase_date b)) rows
        \<and> mset products = mset (map (\<lambda>p. (pr_id p, pr_product_name p)) (Product (db st)))
        \<and> mset suppliers = mset (map (\<lambda>s. (s_id s, s_supplier_name s)) (Supplier (db st)))"
    by (simp add: purchases_def mset_select_purchases sorted_select_purchases
        select_products_def select_suppliers_def mset_order_by)
  show "truthy_bool (logged_in (session st)) \<longrightarrow> purchases_route ev st = purchases ev st"
    by (simp add: purchases_route_def login_required_pass)
qed (rule from_purchase_joined_iff)

theorem purchases_pure_read_witness:
  "purchases_route demo_env admin_state =
     (Inr (Render_purchase
        [\<lparr>v_id = 2, v_product_name = Some ''Gauze'', v_batch_number = None,
          v_purchase_quantity = 5, v_remaining_quantity = 3, v_expiration_date = None,
          v_status = Some ''in stock'', v_purchase_date = Some 200, v_supplier_name = None\<rparr>,
         \<lparr>v_id = 1, v_product_name = Some ''Paracetamol'', v_batch_number = Some ''B1'',
          v_purchase_quantity = 10, v_remaining_quantity = 10,
          v_expiration_date = Some 20250101, v_status = Some ''in stock'',
          v_purchase_date = Some 100, v_supplier_name = Some ''Acme''\<rparr>]
        [(2, ''Gauze''), (1, ''Paracetamol''), (3, ''Syrup'')]
        [(1, ''Acme'')]), admin_state)"
  using purchases_pure_read [of demo_env admin_state]
  by (simp add: purchases_route_def login_required_def purchases_def select_purchases_def
      select_products_def select_suppliers_def from_purchase_joined_def left_join_def
      order_by_def select_purchase_def admin_state_def admin_session_def demo_db_def
      demo_env_def)

section \<open>Activity log\<close>

text \<open>
  Claim C8, as amended. A login that succeeds, a logout of a session that holds a
  non-empty username, and a stock-in that succeeds each append exactly one
  user_activity row with the acting username and the activity; a login that fails, a
  logout of a session with no username or an empty one, and a stock-in that raises
  append none.
\<close>

theorem activity_logged:
  "(fst (auth ev cx frm st) = Inr (Redirect ''/dashboard'') \<longrightarrow>
      (\<exists>u. frm ''username'' = Some u
        \<and> user_activity (db (snd (auth ev cx frm st))) =
            user_activity (db st) @
              [\<lparr>a_id = nextval_user_activity cx, a_username = u, a_activity = ''Logged in'',
                a_activity_time = Some (now cx)\<rparr>]))
   \<and> (fst (auth ev cx frm st) \<noteq> Inr (Redirect ''/dashboard'') \<longrightarrow>
        user_activity (db (snd (auth ev cx frm st))) = user_activity (db st))
   \<and> (\<forall>u. username (session st) = Some u \<and> u \<noteq> [] \<longrightarrow>
        user_activity (db (snd (logout cx st))) =
          user_activity (db st) @
            [\<lparr>a_id = nextval_user_activity cx, a_username = u, a_activity = ''Logged out'',
              a_activity_time = Some (now cx)\<rparr>])
   \<and> (username (session st) = None \<or> username (session st) = Some [] \<longrightarrow>
        user_activity (db (snd (logout cx st))) = user_activity (db st))
   \<and> (fst (add_purchase ev cx frm st) = Inr (Jsonify_success True) \<longrightarrow>
        (\<exists>u. username (session st) = Some u
          \<and> user_activity (db (snd (add_purchase ev cx frm st))) =
              user_activity (db st) @
                [\<lparr>a_id = nextval_user_activity cx, a_username = u,
                  a_activity = ''Added stock-in'', a_activity_time = Some (now cx)\<rparr>]))
   \<and> (fst (add_purchase ev cx frm st) \<noteq> Inr (Jsonify_success True) \<longrightarrow>
        user_activity (db (snd (add_purchase ev cx frm st))) = user_activity (db st))"
proof (intro conjI)
  show "fst (auth ev cx frm st) = Inr (Redirect ''/dashboard'') \<longrightarrow>
      (\<exists>u. frm ''username'' = Some u
        \<and> user_activity (db (snd (auth ev cx frm st))) =
            user_activity (db st) @
              [\<lparr>a_id = nextval_user_activity cx, a_username = u, a_activity = ''Logged in'',
                a_activity_time = Some (now cx)\<rparr>])"
    by (auto simp: auth_def user_activity_log_activity split: option.splits if_splits)
  show "fst (auth ev cx frm st) \<noteq> Inr (Redirect ''/dashboard'') \<longrightarrow>
        user_activity (db (snd (auth ev cx frm st))) = user_activity (db st)"
    by (auto simp: auth_def split: option.splits if_splits)
  show "\<forall>u. username (session st) = Some u \<and> u \<noteq> [] \<longrightarrow>
        user_activity (db (snd (logout cx st))) =
          user_activity (db st) @
            [\<lparr>a_id = nextval_user_activity cx, a_username = u, a_activity = ''Logged out'',
              a_activity_time = Some (now cx)\<rparr>]"
    by (simp add: logout_def Let_def user_activity_log_activity)
  show "username (session st) = None \<or> username (session st) = Some [] \<longrightarrow>
        user_activity (db (snd (logout cx st))) = user_activity (db st)"
    by (auto simp: logout_def Let_def)
  show "fst (add_purchase ev cx frm st) = Inr (Jsonify_success True) \<longrightarrow>
        (\<exists>u. username (session st) = Some u
          \<and> user_activity (db (snd (add_purchase ev cx frm st))) =
              user_activity (db st) @
                [\<lparr>a_id = nextval_user_activity cx, a_username = u,
                  a_activity = ''Added stock-in'', a_activity_time = Some (now cx)\<rparr>])"
    by (auto simp: add_purchase_def user_activity_log_activity
        user_activity_insert_purchase split: option.splits sum.splits)
  show "fst (add_purchase ev cx frm st) \<noteq> Inr (Jsonify_success True) \<longrightarrow>
        user_activity (db (snd (add_purchase ev cx frm st))) = user_activity (db st)"
    by (auto simp: add_purchase_def user_activity_insert_purchase
        split: option.splits sum.splits)
qed

theorem activity_logged_witness:
  "user_activity (db (snd (auth demo_env demo_ctx (login_form ''admin'' ''secret'')
       anonymous_state))) =
     [\<lparr>a_id = 1, a_username = ''admin'', a_activity = ''Logged in'',
       a_activity_time = Some 300\<rparr>]
   \<and> user_activity (db (snd (auth demo_env demo_ctx (login_form ''admin'' ''guess'')
       anonymous_state))) = []
   \<and> user_activity (db (snd (logout demo_ctx admin_state))) =
     [\<lparr>a_id = 1, a_username = ''admin'', a_activity = ''Logged out'',
       a_activity_time = Some 300\<rparr>]
   \<and> user_activity (db (snd (logout demo_ctx anonymous_state))) = []
   \<and> user_activity (db (snd (add_purchase demo_env demo_ctx
       (purchase_form ''2'' ''1'' ''40'' ''2026-06-30'') admin_state))) =
     [\<lparr>a_id = 1, a_username = ''admin'', a_activity = ''Added stock-in'',
       a_activity_time = Some 300\<rparr>]
   \<and> user_activity (db (snd (add_purchase demo_env demo_ctx
       (purchase_form ''2'' ''1'' ''forty'' ''2026-06-30'') admin_state))) = []"
  using
    activity_logged [where frm = "login_form ''admin'' ''secret''" and st = anonymous_state
      and ev = demo_env and cx = demo_ctx]
    activity_logged [where frm = "login_form ''admin'' ''guess''" and st = anonymous_state
      and ev = demo_env and cx = demo_ctx]
    activity_logged [where frm = "purchase_form ''2'' ''1'' ''40'' ''2026-06-30''"
      and st = admin_state and ev = demo_env and cx = demo_ctx]
    activity_logged [where frm = "purchase_form ''2'' ''1'' ''forty'' ''2026-06-30''"
      and st = admin_state and ev = demo_env and cx = demo_ctx]
  by (simp add: auth_def logout_def add_purchase_def insert_purchase_def log_activity_def
      login_form_def purchase_form_def anonymous_state_def admin_state_def admin_session_def
      session_clear_def demo_db_def demo_env_def demo_ctx_def decimal_def digit_value_def
      iso_date_def in_int4_def Let_def)

text \<open>The claim for every logout fails: \<open>logout\<close> logs only under
  \<^verbatim>\<open>if session.get("username")\<close>. A logout request without a session appends no
  row, and neither does the logout of a user whose stored username is the empty
  string, although that user's login was logged.\<close>

theorem logout_without_username_counterexample:
  "fst (logout demo_ctx anonymous_state) = Inr (Redirect ''/'')
   \<and> user_activity (db (snd (logout demo_ctx anonymous_state))) =
       user_activity (db anonymous_state)
   \<and> fst (auth demo_env demo_ctx (login_form [] ''guest'') anonymous_state) =
       Inr (Redirect ''/dashboard'')
   \<and> username (session (snd (auth demo_env demo_ctx (login_form [] ''guest'')
        anonymous_state))) = Some []
   \<and> user_activity (db (snd (logout demo_ctx
        (snd (auth demo_env demo_ctx (login_form [] ''guest'') anonymous_state))))) =
       user_activity (db (snd (auth demo_env demo_ctx (login_form [] ''guest'')
        anonymous_state)))"
  by (simp add: logout_def auth_def login_form_def anonymous_state_def session_clear_def
      demo_db_def demo_env_def update_session_def Let_def)

end
